theory Spec2Isabelle
  imports Main
begin

section \<open>The project manifest and the values read from it\<close>

text \<open>
  Both programs of the repository read \<open>package.json\<close> of the \<open>app\<close> directory and use its
  \<open>version\<close> property: the stack constructor through
  \<open>JSON.parse(fs.readFileSync(packageJsonPath, 'utf8'))\<close>, the server through
  \<open>require('./package.json')\<close>. File access and JSON parsing are library code; their
  outcome on the file is an input of the model.

  A property value of the parsed object is a string or some other JSON value. The
  source applies two operations to it: string conversion inside template literals and
  \<open>JSON.stringify\<close> inside \<open>res.json\<close>. A value that is not a string is represented by
  what these two operations make of it: the result of ECMAScript's ToString (\<open>None\<close>
  when the conversion throws a TypeError, as for an object with an own \<open>toString\<close>
  property) and its JSON text.
\<close>

datatype js_error =
    FsError string | SyntaxError | TypeError | ModuleNotFound string | ListenError string

datatype json_value = Str string | Other "string option" string

datatype json = JNull | JObject "(string \<times> json_value) list" | JOther

datatype manifest = Unreadable string | Malformed | Parsed json

type_synonym path = "string list"

text \<open>\<open>JSON.parse(fs.readFileSync(p, 'utf8'))\<close>: the read throws on a missing or unreadable
  file (with the code of the file-system error), the parse throws a SyntaxError.\<close>

definition read_json :: "(path \<Rightarrow> manifest) \<Rightarrow> path \<Rightarrow> js_error + json" where
  "read_json fs p =
     (case fs p of
        Unreadable code \<Rightarrow> Inl (FsError code)
      | Malformed \<Rightarrow> Inl SyntaxError
      | Parsed j \<Rightarrow> Inr j)"

text \<open>Property access \<open>j.version\<close>: a TypeError on \<open>null\<close>; on an object the own property (the
  last one when the text repeats the key), \<open>undefined\<close> (\<open>None\<close>) when there is none; a
  number, string, boolean or array has no such property.\<close>

definition get_property :: "json \<Rightarrow> string \<Rightarrow> js_error + json_value option" where
  "get_property j k =
     (case j of
        JNull \<Rightarrow> Inl TypeError
      | JObject kvs \<Rightarrow> Inr (map_of (rev kvs) k)
      | JOther \<Rightarrow> Inr None)"

text \<open>String conversion of a template literal's substitution \<open>${v}\<close>.\<close>

fun ToString :: "json_value option \<Rightarrow> js_error + string" where
  "ToString None = Inr ''undefined''"
| "ToString (Some (Str s)) = Inr s"
| "ToString (Some (Other None js)) = Inl TypeError"
| "ToString (Some (Other (Some r) js)) = Inr r"

section \<open>Constructs of the stack\<close>

text \<open>
  A property of a construct is a string in which literal text and references to other
  constructs are concatenated (CDK's tokens): \<open>Ref i\<close> stands for \<open>c.ref\<close> and for the
  generated names \<open>c.roleName\<close>, \<open>Attr i a\<close> for an attribute \<open>c.a\<close> of the construct with
  id \<open>i\<close>; both receive their value at deployment.
\<close>

datatype token = Lit string | Ref string | Attr string string

type_synonym tstring = "token list"

fun resolve_token :: "(string \<Rightarrow> string \<Rightarrow> string) \<Rightarrow> token \<Rightarrow> string" where
  "resolve_token \<rho> (Lit s) = s"
| "resolve_token \<rho> (Ref i) = \<rho> i ''Ref''"
| "resolve_token \<rho> (Attr i a) = \<rho> i a"

definition resolve :: "(string \<Rightarrow> string \<Rightarrow> string) \<Rightarrow> tstring \<Rightarrow> string" where
  "resolve \<rho> ts = concat (map (resolve_token \<rho>) ts)"

fun token_refs :: "token \<Rightarrow> string list" where
  "token_refs (Lit s) = []"
| "token_refs (Ref i) = [i]"
| "token_refs (Attr i a) = [i]"

definition tstring_refs :: "tstring \<Rightarrow> string list" where
  "tstring_refs ts = concat (map token_refs ts)"

record ingress_rule =
  peer :: string
  protocol :: string
  fromPort :: nat
  toPort :: nat
  rule_description :: string

record option_setting =
  namespace :: string
  optionName :: string
  opt_value :: tstring

datatype removal_policy = DESTROY | RETAIN | SNAPSHOT | RETAIN_ON_UPDATE_OR_DELETE

datatype platform = LINUX_AMD64 | LINUX_ARM64

datatype construct =
    VpcLookup (isDefault: bool)
  | SecurityGroup (sg_vpc: string) (sg_description: string) (allowAllOutbound: bool)
      (ingressRules: "ingress_rule list")
  | Repository (repositoryName: string) (removalPolicy: removal_policy) (emptyOnDelete: bool)
  | DockerImageAsset (directory: path) (asset_platform: platform)
  | ECRDeployment (src: tstring) (dest: tstring)
  | Asset (asset_path: path)
  | Role (assumedBy: string) (managedPolicies: "string list")
  | CfnInstanceProfile (roles: "tstring list")
  | CfnApplication (app_applicationName: "string option")
  | CfnApplicationVersion (ver_applicationName: string) (s3Bucket: tstring) (s3Key: tstring)
      (ver_description: string)
  | CfnEnvironment (environmentName: string) (env_applicationName: string)
      (solutionStackName: string) (versionLabel: tstring) (optionSettings: "option_setting list")

text \<open>The stack under construction: the constructs in the order of their creation, each
  under its id, and the dependencies declared with \<open>addDependency\<close> (dependent first).\<close>

record stack =
  constructs :: "(string \<times> construct) list"
  dependencies :: "(string \<times> string) list"

definition add :: "string \<Rightarrow> construct \<Rightarrow> stack \<Rightarrow> stack" where
  "add i c s = s\<lparr>constructs := constructs s @ [(i, c)]\<rparr>"

definition addDependency :: "string \<Rightarrow> string \<Rightarrow> stack \<Rightarrow> stack" where
  "addDependency a b s = s\<lparr>dependencies := dependencies s @ [(a, b)]\<rparr>"

definition find_construct :: "stack \<Rightarrow> string \<Rightarrow> construct option" where
  "find_construct s i = map_of (constructs s) i"

section \<open>The stack constructor\<close>

text \<open>What the constructor takes from its surroundings: the VPC found by
  \<open>ec2.Vpc.fromLookup\<close>, the directory \<open>__dirname\<close> of the source file, and the file
  system.\<close>

record vpc =
  vpcId :: string
  publicSubnets :: "string list"

record build_env =
  lookup :: vpc
  dirname :: string
  fs :: "path \<Rightarrow> manifest"

definition anyIpv4 :: string where
  "anyIpv4 = ''0.0.0.0/0''"

definition tcp :: "nat \<Rightarrow> string \<times> nat \<times> nat" where
  "tcp p = (''tcp'', p, p)"

fun addIngressRule :: "construct \<Rightarrow> string \<Rightarrow> string \<times> nat \<times> nat \<Rightarrow> string \<Rightarrow> construct" where
  "addIngressRule (SecurityGroup v d out rs) pr (proto, lo, hi) descr =
     SecurityGroup v d out
       (rs @ [\<lparr>peer = pr, protocol = proto, fromPort = lo, toPort = hi, rule_description = descr\<rparr>])"
| "addIngressRule c pr prt descr = c"

fun join :: "string \<Rightarrow> string list \<Rightarrow> string" where
  "join sep [] = []"
| "join sep [x] = x"
| "join sep (x # y # ys) = x @ sep @ join sep (y # ys)"

text \<open>\<open>a || d\<close> on an optional string: \<open>undefined\<close> and the empty string are falsy.\<close>

definition or_default :: "string option \<Rightarrow> string \<Rightarrow> string" where
  "or_default a d = (case a of None \<Rightarrow> d | Some s \<Rightarrow> if s = [] then d else s)"

text \<open>Modelled from the spec: the getter \<open>repositoryUri\<close> of CDK's \<open>ecr.Repository\<close> is
  library code. The spec gives the fully-qualified form \<open><registryHost>/<repository>\<close>,
  and the source's comment on the image option the example
  \<open>123456789.dkr.ecr.us-east-1.amazonaws.com/dbbsoftt-repo:1.0.0\<close>. The registry host of
  the account and region is known at deployment only.\<close>

definition repositoryUri :: "string \<Rightarrow> construct \<Rightarrow> tstring" where
  "repositoryUri i r = [Attr i ''registryHost'', Lit ''/'', Lit (repositoryName r)]"

definition mySecurityGroup :: "vpc \<Rightarrow> construct" where
  "mySecurityGroup v =
     addIngressRule (SecurityGroup (vpcId v) ''Allow HTTP access'' True [])
       anyIpv4 (tcp 80) ''Allow HTTP traffic''"

definition repo :: construct where
  "repo = Repository ''dbbsoftt-repo'' DESTROY True"

definition dockerAsset :: "string \<Rightarrow> construct" where
  "dockerAsset dir = DockerImageAsset [dir, ''..'', ''app''] LINUX_AMD64"

definition image_reference :: "string \<Rightarrow> tstring" where
  "image_reference appVersion = repositoryUri ''MyWebAppRepo'' repo @ [Lit '':'', Lit appVersion]"

definition ecrDeployment :: "string \<Rightarrow> construct" where
  "ecrDeployment appVersion =
     ECRDeployment [Attr ''MyWebAppImage'' ''imageUri''] (image_reference appVersion)"

definition appSourceZip :: "string \<Rightarrow> construct" where
  "appSourceZip dir = Asset [dir, ''..'', ''app'']"

fun addManagedPolicy :: "construct \<Rightarrow> string \<Rightarrow> construct" where
  "addManagedPolicy (Role who ps) p = Role who (ps @ [p])"
| "addManagedPolicy c p = c"

definition ebInstanceRole :: construct where
  "ebInstanceRole =
     addManagedPolicy
       (addManagedPolicy (Role ''ec2.amazonaws.com'' []) ''AWSElasticBeanstalkWebTier'')
       ''AmazonEC2ContainerRegistryReadOnly''"

definition ebInstanceProfile :: construct where
  "ebInstanceProfile = CfnInstanceProfile [[Ref ''EBInstanceRole'']]"

definition app :: construct where
  "app = CfnApplication (Some ''DbbSoft'')"

definition appVersionProps :: "string \<Rightarrow> construct" where
  "appVersionProps appVersion =
     CfnApplicationVersion (or_default (app_applicationName app) ''DbbSoft'')
       [Attr ''AppSourceZip'' ''s3BucketName''] [Attr ''AppSourceZip'' ''s3ObjectKey'']
       (''Version '' @ appVersion)"

definition env_optionSettings :: "vpc \<Rightarrow> string \<Rightarrow> option_setting list" where
  "env_optionSettings v appVersion =
     [\<lparr>namespace = ''aws:ec2:vpc'', optionName = ''VPCId'', opt_value = [Lit (vpcId v)]\<rparr>,
      \<lparr>namespace = ''aws:ec2:vpc'', optionName = ''Subnets'',
        opt_value = [Lit (join '','' (publicSubnets v))]\<rparr>,
      \<lparr>namespace = ''aws:ec2:vpc'', optionName = ''AssociatePublicIpAddress'',
        opt_value = [Lit ''true'']\<rparr>,
      \<lparr>namespace = ''aws:autoscaling:launchconfiguration'', optionName = ''IamInstanceProfile'',
        opt_value = [Ref ''EBInstanceProfile'']\<rparr>,
      \<lparr>namespace = ''aws:autoscaling:launchconfiguration'', optionName = ''InstanceType'',
        opt_value = [Lit ''t3.micro'']\<rparr>,
      \<lparr>namespace = ''aws:autoscaling:launchconfiguration'', optionName = ''SecurityGroups'',
        opt_value = [Attr ''WebSg'' ''securityGroupId'']\<rparr>,
      \<lparr>namespace = ''aws:elasticbeanstalk:environment'', optionName = ''EnvironmentType'',
        opt_value = [Lit ''SingleInstance'']\<rparr>,
      \<lparr>namespace = ''aws:elasticbeanstalk:application:environment'',
        optionName = ''AWS_EB_DOCKER_IMAGE_URI'', opt_value = image_reference appVersion\<rparr>]"

definition ebEnv :: "vpc \<Rightarrow> string \<Rightarrow> construct" where
  "ebEnv v appVersion =
     CfnEnvironment ''DbbSoftEnv'' (or_default (app_applicationName app) ''DbbSoft'')
       ''64bit Amazon Linux 2023 v4.8.0 running Docker''
       [Ref ''MyAppVersion'']
       (env_optionSettings v appVersion)"

text \<open>Lines 27 to 29 of the constructor: the value of \<open>packageJson.version\<close>.\<close>

definition read_appVersion :: "build_env \<Rightarrow> js_error + json_value option" where
  "read_appVersion env =
     (let packageJsonPath = [dirname env, ''..'', ''app'', ''package.json''] in
      case read_json (fs env) packageJsonPath of
        Inl e \<Rightarrow> Inl e
      | Inr packageJson \<Rightarrow> get_property packageJson ''version'')"

text \<open>The constructs created before the version is read, and those created after it, in
  the order of the source; \<open>v\<close> is the version as the template literals render it.\<close>

definition network_constructs :: "build_env \<Rightarrow> stack \<Rightarrow> stack" where
  "network_constructs env =
     add ''WebSg'' (mySecurityGroup (lookup env))
     \<circ> add ''DefaultVPC'' (VpcLookup True)"

definition versioned_constructs :: "build_env \<Rightarrow> string \<Rightarrow> stack \<Rightarrow> stack" where
  "versioned_constructs env v =
     add ''MyEBEnv'' (ebEnv (lookup env) v)
     \<circ> addDependency ''MyAppVersion'' ''MyEBApp''
     \<circ> add ''MyAppVersion'' (appVersionProps v)
     \<circ> add ''MyEBApp'' app
     \<circ> add ''EBInstanceProfile'' ebInstanceProfile
     \<circ> add ''EBInstanceRole'' ebInstanceRole
     \<circ> add ''AppSourceZip'' (appSourceZip (dirname env))
     \<circ> add ''DeployDockerImage'' (ecrDeployment v)
     \<circ> add ''MyWebAppImage'' (dockerAsset (dirname env))
     \<circ> add ''MyWebAppRepo'' repo"

text \<open>The constructor of \<open>DbbSoftTestStack\<close>. An exception of the version read leaves the
  constructor, and with it the program: no stack is produced. The first conversion of
  the version to a string is that of the \<open>console.log\<close> line, before the repository is
  created; the line's output is not part of the stack.\<close>

definition empty_stack :: stack where
  "empty_stack = \<lparr>constructs = [], dependencies = []\<rparr>"

definition DbbSoftTestStack :: "build_env \<Rightarrow> js_error + stack" where
  "DbbSoftTestStack env =
     (let s = network_constructs env empty_stack in
      case read_appVersion env of
        Inl e \<Rightarrow> Inl e
      | Inr appVersion \<Rightarrow>
          (case ToString appVersion of
             Inl e \<Rightarrow> Inl e
           | Inr v \<Rightarrow> Inr (versioned_constructs env v s)))"

section \<open>Reading a stack\<close>

fun is_environment :: "construct \<Rightarrow> bool" where
  "is_environment (CfnEnvironment n a st vl os) = True"
| "is_environment c = False"

definition environments :: "stack \<Rightarrow> construct list" where
  "environments s = filter is_environment (map snd (constructs s))"

definition option_value :: "construct \<Rightarrow> string \<Rightarrow> string \<Rightarrow> tstring option" where
  "option_value c ns n =
     map_option opt_value (find (\<lambda>x. namespace x = ns \<and> optionName x = n) (optionSettings c))"

text \<open>The image that the environment pulls: the option \<open>AWS_EB_DOCKER_IMAGE_URI\<close> of the
  environment, when the stack has exactly one.\<close>

definition imageReference :: "stack \<Rightarrow> tstring option" where
  "imageReference s =
     (case environments s of
        [e] \<Rightarrow> option_value e ''aws:elasticbeanstalk:application:environment''
                 ''AWS_EB_DOCKER_IMAGE_URI''
      | _ \<Rightarrow> None)"

text \<open>The image that the deployment pushes: \<open>dest\<close> of the \<open>ECRDeployment\<close>.\<close>

definition push_destination :: "stack \<Rightarrow> tstring option" where
  "push_destination s =
     (case find_construct s ''DeployDockerImage'' of
        Some (ECRDeployment a b) \<Rightarrow> Some b
      | _ \<Rightarrow> None)"









section \<open>Dependencies between the resources\<close>

text \<open>The resources of the stack are its constructs other than the VPC that is looked up
  and the two assets, which are built and uploaded before any deployment and stand for no
  resource of the template.\<close>

fun is_resource :: "construct \<Rightarrow> bool" where
  "is_resource (VpcLookup d) = False"
| "is_resource (DockerImageAsset d p) = False"
| "is_resource (Asset p) = False"
| "is_resource c = True"

definition resources :: "stack \<Rightarrow> (string \<times> construct) list" where
  "resources s = filter (is_resource \<circ> snd) (constructs s)"

definition resource_ids :: "stack \<Rightarrow> string list" where
  "resource_ids s = map fst (resources s)"

text \<open>A resource depends on the resources whose values its properties take (the
  references in its token strings) and on those named by \<open>addDependency\<close>.\<close>

fun refs_of :: "construct \<Rightarrow> string list" where
  "refs_of (ECRDeployment a b) = tstring_refs a @ tstring_refs b"
| "refs_of (CfnInstanceProfile rs) = concat (map tstring_refs rs)"
| "refs_of (CfnApplicationVersion n b k d) = tstring_refs b @ tstring_refs k"
| "refs_of (CfnEnvironment n a st vl os) =
     tstring_refs vl @ concat (map (tstring_refs \<circ> opt_value) os)"
| "refs_of c = []"

definition depends_on :: "stack \<Rightarrow> (string \<times> string) list" where
  "depends_on s =
     concat (map (\<lambda>(i, c). map (Pair i) (filter (\<lambda>r. r \<in> set (resource_ids s)) (refs_of c)))
               (resources s))
     @ dependencies s"

text \<open>\<open>precedes xs a b\<close>: \<open>b\<close> occurs in \<open>xs\<close>, and \<open>a\<close> occurs before the first \<open>b\<close>.\<close>

definition precedes :: "'a list \<Rightarrow> 'a \<Rightarrow> 'a \<Rightarrow> bool" where
  "precedes xs a b = (b \<in> set xs \<and> a \<in> set (takeWhile (\<lambda>x. x \<noteq> b) xs))"

text \<open>Modelled from the spec: the Deployment Applier and its topological sort are not in
  the repository, which hands the stack to CloudFormation. The spec has the Applier
  resolve the creation order by a topological sort over the depends-on edges. The sort
  here creates, as long as resources are pending, the first pending resource all of whose
  dependencies have been created; it fails (\<open>None\<close>) when no pending resource is ready,
  as on a cycle.\<close>

definition ready :: "('a \<times> 'a) list \<Rightarrow> 'a list \<Rightarrow> 'a \<Rightarrow> bool" where
  "ready deps created x = list_all (\<lambda>(a, d). a = x \<longrightarrow> d \<in> set created) deps"

function sort_from :: "('a \<times> 'a) list \<Rightarrow> 'a list \<Rightarrow> 'a list \<Rightarrow> 'a list option" where
  "sort_from deps created pending =
     (if pending = [] then Some created
      else case find (ready deps created) pending of
             None \<Rightarrow> None
           | Some x \<Rightarrow> sort_from deps (created @ [x]) (remove1 x pending))"
  by pat_completeness auto
termination
proof (relation "measure (\<lambda>(deps, created, pending). length pending)")
  show "wf (measure (\<lambda>(deps, created, pending). length pending))" by simp
next
  fix deps :: "('a \<times> 'a) list" and created pending :: "'a list" and x
  assume "pending \<noteq> []" and "find (ready deps created) pending = Some x"
  then have "x \<in> set pending"
    by (auto simp: find_Some_iff)
  then show "((deps, created @ [x], remove1 x pending), (deps, created, pending))
      \<in> measure (\<lambda>(deps, created, pending). length pending)"
    using \<open>pending \<noteq> []\<close> by (simp add: length_remove1)
qed

definition topological_sort :: "('a \<times> 'a) list \<Rightarrow> 'a list \<Rightarrow> 'a list option" where
  "topological_sort deps input = sort_from deps [] input"

section \<open>The health server\<close>

definition PORT :: nat where
  "PORT = 8080"

text \<open>A GET request: its path and the three headers that Express reads when it decides
  whether the client's copy of the response is fresh.\<close>

record request =
  url_path :: string
  if_none_match :: "string option"
  if_modified_since :: "string option"
  cache_control :: "string option"

text \<open>Of the Express library the model takes as they are: whether one of the entity tags
  listed in an \<open>If-None-Match\<close> header is the tag that Express computes (a hash) for a
  body, whether a \<open>Cache-Control\<close> header holds the directive \<open>no-cache\<close>, and whether the
  installed version lets \<open>If-None-Match\<close> decide alone when \<open>If-Modified-Since\<close> is there as
  well (the later versions do).\<close>

record express =
  tag_matches :: "string \<Rightarrow> string \<Rightarrow> bool"
  no_cache :: "string \<Rightarrow> bool"
  none_match_first :: bool

text \<open>What the server takes from its surroundings: the Express module when it is installed,
  the manifest beside the server, and the outcome of binding a port (the code of the
  error, as \<open>EADDRINUSE\<close>, when it fails).\<close>

record server_env =
  express_module :: "express option"
  package :: manifest
  bind :: "nat \<Rightarrow> string option"

record server =
  lib :: express
  VERSION :: "json_value option"

text \<open>\<open>require('./package.json')\<close> and \<open>packageJson.version\<close>: the value of \<open>VERSION\<close>, or the
  exception.\<close>

definition load_VERSION :: "manifest \<Rightarrow> js_error + json_value option" where
  "load_VERSION m =
     (case m of
        Unreadable code \<Rightarrow> Inl (FsError code)
      | Malformed \<Rightarrow> Inl SyntaxError
      | Parsed packageJson \<Rightarrow> get_property packageJson ''version'')"

text \<open>The start of the server, in the order of the source: the Express module is required,
  the version is read, the port is bound, and the callback of \<open>app.listen\<close> converts
  \<open>VERSION\<close> for its \<open>console.log\<close> line. An exception at any of these ends the process.\<close>

definition server_start :: "server_env \<Rightarrow> js_error + server" where
  "server_start env =
     (case express_module env of
        None \<Rightarrow> Inl (ModuleNotFound ''express'')
      | Some e \<Rightarrow>
          (case load_VERSION (package env) of
             Inl err \<Rightarrow> Inl err
           | Inr v \<Rightarrow>
               (case bind env PORT of
                  Some code \<Rightarrow> Inl (ListenError code)
                | None \<Rightarrow>
                    (case ToString v of
                       Inl err \<Rightarrow> Inl err
                     | Inr text \<Rightarrow> Inr \<lparr>lib = e, VERSION = v\<rparr>))))"

record response =
  status :: nat
  contentType :: "string option"
  body :: string

datatype outcome = Response response | Throws js_error | NotFound

text \<open>\<open>JSON.stringify\<close> of a string: quotes, with the quote, the backslash and the control
  characters escaped.\<close>

definition hex_digit :: "nat \<Rightarrow> char" where
  "hex_digit n = ''0123456789abcdef'' ! (n mod 16)"

definition escape_char :: "char \<Rightarrow> string" where
  \<open>escape_char c =
     (if c = CHR 0x22 then [CHR 0x5C, CHR 0x22]
      else if c = CHR 0x5C then [CHR 0x5C, CHR 0x5C]
      else if c = CHR 0x08 then [CHR 0x5C, CHR ''b'']
      else if c = CHR 0x0C then [CHR 0x5C, CHR ''f'']
      else if c = CHR 0x0A then [CHR 0x5C, CHR ''n'']
      else if c = CHR 0x0D then [CHR 0x5C, CHR ''r'']
      else if c = CHR 0x09 then [CHR 0x5C, CHR ''t'']
      else if (of_char c :: nat) < 32
        then [CHR 0x5C, CHR ''u'', CHR ''0'', CHR ''0'',
              hex_digit (of_char c div 16), hex_digit (of_char c)]
      else [c])\<close>

definition quote :: "string \<Rightarrow> string" where
  "quote s = [CHR 0x22] @ concat (map escape_char s) @ [CHR 0x22]"

fun stringify_value :: "json_value \<Rightarrow> string" where
  "stringify_value (Str s) = quote s"
| "stringify_value (Other r js) = js"

text \<open>\<open>JSON.stringify\<close> of an object literal: the properties in their order, those whose
  value is \<open>undefined\<close> left out.\<close>

fun stringify_property :: "string \<times> json_value option \<Rightarrow> string list" where
  "stringify_property (k, None) = []"
| "stringify_property (k, Some v) = [quote k @ '':'' @ stringify_value v]"

definition stringify_object :: "(string \<times> json_value option) list \<Rightarrow> string" where
  "stringify_object props = ''{'' @ join '','' (concat (map stringify_property props)) @ ''}''"

text \<open>The freshness check that \<open>res.send\<close> of Express makes on a GET request, once it has
  given the response its entity tag. A header counts when it is there and not empty. A
  request with neither validator (not conditional) is not fresh, nor is one that asks for
  \<open>no-cache\<close>, nor one whose \<open>If-None-Match\<close> is not \<open>*\<close> and lists no matching tag. An
  \<open>If-Modified-Since\<close> header makes the request stale where it is looked at, as these
  responses carry no modification date.\<close>

definition header_holds :: "(string \<Rightarrow> bool) \<Rightarrow> string option \<Rightarrow> bool" where
  "header_holds P h = (case h of None \<Rightarrow> False | Some v \<Rightarrow> v \<noteq> [] \<and> P v)"

definition conditional :: "request \<Rightarrow> bool" where
  "conditional req =
     (header_holds (\<lambda>v. True) (if_modified_since req) \<or>
      header_holds (\<lambda>v. True) (if_none_match req))"

definition fresh :: "express \<Rightarrow> request \<Rightarrow> string \<Rightarrow> bool" where
  "fresh e req text =
     (if \<not> conditional req then False
      else if header_holds (no_cache e) (cache_control req) then False
      else if header_holds (\<lambda>v. True) (if_none_match req) then
        (if header_holds (\<lambda>v. v \<noteq> ''*'' \<and> \<not> tag_matches e v text) (if_none_match req)
         then False
         else if none_match_first e then True
         else \<not> header_holds (\<lambda>v. True) (if_modified_since req))
      else False)"

text \<open>\<open>res.send\<close>: status 200 with the content type of the body's kind; for a fresh request
  status 304, with content type and body stripped. \<open>res.json\<close> sends the JSON text.\<close>

definition send :: "express \<Rightarrow> request \<Rightarrow> string \<Rightarrow> string \<Rightarrow> outcome" where
  "send e req ctype text =
     Response (if fresh e req text
               then \<lparr>status = 304, contentType = None, body = []\<rparr>
               else \<lparr>status = 200, contentType = Some ctype, body = text\<rparr>)"

definition res_json :: "express \<Rightarrow> request \<Rightarrow> (string \<times> json_value option) list \<Rightarrow> outcome" where
  "res_json e req obj = send e req ''application/json; charset=utf-8'' (stringify_object obj)"

definition res_send :: "express \<Rightarrow> request \<Rightarrow> string \<Rightarrow> outcome" where
  "res_send e req text = send e req ''text/html; charset=utf-8'' text"

text \<open>The two handlers. Neither reads the request, which only \<open>res\<close> consults.\<close>

definition health :: "server \<Rightarrow> request \<Rightarrow> outcome" where
  "health srv req =
     res_json (lib srv) req [(''status'', Some (Str ''healthy'')), (''version'', VERSION srv)]"

definition root :: "server \<Rightarrow> request \<Rightarrow> outcome" where
  "root srv req =
     (case ToString (VERSION srv) of
        Inl err \<Rightarrow> Throws err
      | Inr v \<Rightarrow>
          res_send (lib srv) req
            (''Craneodev test app for DBB Software. The app is running. Version: '' @ v))"

text \<open>Express matches a route's path without regard to case and with an optional trailing
  slash (its defaults), and runs the first route that matches.\<close>

definition to_lower :: "char \<Rightarrow> char" where
  "to_lower c =
     (case map_of (zip ''ABCDEFGHIJKLMNOPQRSTUVWXYZ'' ''abcdefghijklmnopqrstuvwxyz'') c of
        Some d \<Rightarrow> d
      | None \<Rightarrow> c)"

definition route_matches :: "string \<Rightarrow> string \<Rightarrow> bool" where
  "route_matches pattern p =
     (let q = map to_lower p in q = pattern \<or> (pattern \<noteq> ''/'' \<and> q = pattern @ ''/''))"

text \<open>A GET request to a server that has started.\<close>

definition handle_get :: "server \<Rightarrow> request \<Rightarrow> outcome" where
  "handle_get srv req =
     (if route_matches ''/health'' (url_path req) then health srv req
      else if route_matches ''/'' (url_path req) then root srv req
      else NotFound)"

text \<open>A server started in its surroundings and then asked: the exception that ended the
  start, or the outcome of the request.\<close>

definition server_get :: "server_env \<Rightarrow> request \<Rightarrow> js_error + outcome" where
  "server_get env req =
     (case server_start env of
        Inl err \<Rightarrow> Inl err
      | Inr srv \<Rightarrow> Inr (handle_get srv req))"

section \<open>Sample inputs\<close>

definition manifest_at :: "string \<Rightarrow> manifest \<Rightarrow> path \<Rightarrow> manifest" where
  "manifest_at dir m p = (if p = [dir, ''..'', ''app'', ''package.json''] then m else Unreadable ''ENOENT'')"

definition sample_env :: "manifest \<Rightarrow> build_env" where
  "sample_env m =
     \<lparr>lookup = \<lparr>vpcId = ''vpc-12345'', publicSubnets = [''subnet-a'', ''subnet-b'']\<rparr>,
      dirname = ''/work/lib'',
      fs = manifest_at ''/work/lib'' m\<rparr>"

definition package_json :: "string \<Rightarrow> manifest" where
  "package_json v = Parsed (JObject [(''name'', Str ''app''), (''version'', Str v)])"

definition sample_deployment :: "string \<Rightarrow> string \<Rightarrow> string" where
  "sample_deployment i a =
     (if a = ''registryHost'' then ''123456789.dkr.ecr.us-east-1.amazonaws.com''
      else i @ ''-'' @ a)"

definition sample_express :: express where
  "sample_express =
     \<lparr>tag_matches = (\<lambda>listed text. False), no_cache = (\<lambda>v. v = ''no-cache''),
      none_match_first = False\<rparr>"

definition sample_server_env :: "manifest \<Rightarrow> server_env" where
  "sample_server_env m =
     \<lparr>express_module = Some sample_express, package = m, bind = (\<lambda>p. None)\<rparr>"

definition plain_request :: "string \<Rightarrow> request" where
  "plain_request p =
     \<lparr>url_path = p, if_none_match = None, if_modified_since = None, cache_control = None\<rparr>"

definition revalidation_request :: "string \<Rightarrow> request" where
  "revalidation_request p =
     \<lparr>url_path = p, if_none_match = Some ''*'', if_modified_since = None, cache_control = None\<rparr>"

section \<open>The stack that the constructor builds\<close>

lemma built_constructs:
  "constructs (versioned_constructs env v (network_constructs env empty_stack)) =
     [(''DefaultVPC'', VpcLookup True),
      (''WebSg'', mySecurityGroup (lookup env)),
      (''MyWebAppRepo'', repo),
      (''MyWebAppImage'', dockerAsset (dirname env)),
      (''DeployDockerImage'', ecrDeployment v),
      (''AppSourceZip'', appSourceZip (dirname env)),
      (''EBInstanceRole'', ebInstanceRole),
      (''EBInstanceProfile'', ebInstanceProfile),
      (''MyEBApp'', app),
      (''MyAppVersion'', appVersionProps v),
      (''MyEBEnv'', ebEnv (lookup env) v)]"
  by (simp add: versioned_constructs_def network_constructs_def add_def addDependency_def
      empty_stack_def)

lemma built_dependencies:
  "dependencies (versioned_constructs env v (network_constructs env empty_stack)) =
     [(''MyAppVersion'', ''MyEBApp'')]"
  by (simp add: versioned_constructs_def network_constructs_def add_def addDependency_def
      empty_stack_def)

lemma DbbSoftTestStack_Inr:
  "DbbSoftTestStack env = Inr s \<longleftrightarrow>
     (\<exists>a v. read_appVersion env = Inr a \<and> ToString a = Inr v \<and>
        s = versioned_constructs env v (network_constructs env empty_stack))"
  by (auto simp: DbbSoftTestStack_def Let_def split: sum.splits)

lemma DbbSoftTestStack_Inl:
  "DbbSoftTestStack env = Inl e \<longleftrightarrow>
     (read_appVersion env = Inl e \<or> (\<exists>a. read_appVersion env = Inr a \<and> ToString a = Inl e))"
  by (auto simp: DbbSoftTestStack_def Let_def split: sum.splits)

lemma built_environments:
  "environments (versioned_constructs env v (network_constructs env empty_stack)) =
     [ebEnv (lookup env) v]"
  by (simp add: environments_def built_constructs mySecurityGroup_def repo_def dockerAsset_def
      ecrDeployment_def appSourceZip_def ebInstanceRole_def ebInstanceProfile_def app_def
      appVersionProps_def ebEnv_def tcp_def)

lemma built_imageReference:
  "imageReference (versioned_constructs env v (network_constructs env empty_stack)) =
     Some (image_reference v)"
  by (simp add: imageReference_def built_environments option_value_def ebEnv_def
      env_optionSettings_def)

lemma built_push_destination:
  "push_destination (versioned_constructs env v (network_constructs env empty_stack)) =
     Some (image_reference v)"
  by (simp add: push_destination_def find_construct_def built_constructs ecrDeployment_def)

lemma resolve_image_reference:
  "resolve \<rho> (image_reference v) = \<rho> ''MyWebAppRepo'' ''registryHost'' @ ''/dbbsoftt-repo:'' @ v"
  by (simp add: resolve_def image_reference_def repositoryUri_def repo_def)


lemma built_resource_ids:
  "resource_ids (versioned_constructs env v (network_constructs env empty_stack)) =
     [''WebSg'', ''MyWebAppRepo'', ''DeployDockerImage'', ''EBInstanceRole'',
      ''EBInstanceProfile'', ''MyEBApp'', ''MyAppVersion'', ''MyEBEnv'']"
  by (simp add: resource_ids_def resources_def built_constructs mySecurityGroup_def repo_def
      dockerAsset_def ecrDeployment_def appSourceZip_def ebInstanceRole_def
      ebInstanceProfile_def app_def appVersionProps_def ebEnv_def tcp_def)

lemma built_resources:
  "resources (versioned_constructs env v (network_constructs env empty_stack)) =
     [(''WebSg'', mySecurityGroup (lookup env)),
      (''MyWebAppRepo'', repo),
      (''DeployDockerImage'', ecrDeployment v),
      (''EBInstanceRole'', ebInstanceRole),
      (''EBInstanceProfile'', ebInstanceProfile),
      (''MyEBApp'', app),
      (''MyAppVersion'', appVersionProps v),
      (''MyEBEnv'', ebEnv (lookup env) v)]"
  by (simp add: resources_def built_constructs mySecurityGroup_def repo_def
      dockerAsset_def ecrDeployment_def appSourceZip_def ebInstanceRole_def
      ebInstanceProfile_def app_def appVersionProps_def ebEnv_def tcp_def)

lemma built_depends_on:
  "depends_on (versioned_constructs env v (network_constructs env empty_stack)) =
     [(''DeployDockerImage'', ''MyWebAppRepo''),
      (''EBInstanceProfile'', ''EBInstanceRole''),
      (''MyEBEnv'', ''MyAppVersion''),
      (''MyEBEnv'', ''EBInstanceProfile''),
      (''MyEBEnv'', ''WebSg''),
      (''MyEBEnv'', ''MyWebAppRepo''),
      (''MyAppVersion'', ''MyEBApp'')]"
  by (simp add: depends_on_def built_resources built_resource_ids built_dependencies
      mySecurityGroup_def repo_def ecrDeployment_def ebInstanceRole_def
      ebInstanceProfile_def app_def appVersionProps_def ebEnv_def tcp_def
      env_optionSettings_def tstring_refs_def image_reference_def repositoryUri_def)


subsection \<open>The sample inputs\<close>

lemma sample_read:
  "read_appVersion (sample_env (package_json v)) = Inr (Some (Str v))"
  by (simp add: read_appVersion_def sample_env_def package_json_def manifest_at_def
      read_json_def get_property_def)

lemma sample_built:
  "DbbSoftTestStack (sample_env (package_json v)) =
     Inr (versioned_constructs (sample_env (package_json v)) v
            (network_constructs (sample_env (package_json v)) empty_stack))"
  by (simp add: DbbSoftTestStack_def sample_read)

lemma sample_built_projr:
  "DbbSoftTestStack (sample_env (package_json v)) =
     Inr (projr (DbbSoftTestStack (sample_env (package_json v))))"
  by (simp add: sample_built)

subsection \<open>Orders of creation\<close>

lemma precedes_trans:
  "precedes xs a b \<Longrightarrow> precedes xs b c \<Longrightarrow> precedes xs a c"
  unfolding precedes_def
  by (induction xs) (auto split: if_splits)

lemma precedes_mem: "precedes xs a b \<Longrightarrow> a \<in> set xs"
  unfolding precedes_def by (auto dest: set_takeWhileD)

lemma precedes_split:
  "precedes xs a b \<Longrightarrow> \<exists>ys zs. xs = ys @ b # zs \<and> a \<in> set ys \<and> b \<notin> set ys"
proof -
  assume p: "precedes xs a b"
  then have "b \<in> set xs" and a: "a \<in> set (takeWhile (\<lambda>x. x \<noteq> b) xs)"
    by (simp_all add: precedes_def)
  then have "dropWhile (\<lambda>x. x \<noteq> b) xs \<noteq> []"
    by (auto simp: dropWhile_eq_Nil_conv)
  then obtain z zs where d: "dropWhile (\<lambda>x. x \<noteq> b) xs = z # zs"
    by (cases "dropWhile (\<lambda>x. x \<noteq> b) xs") auto
  then have "z = b"
    using hd_dropWhile [of "\<lambda>x. x \<noteq> b" xs] by auto
  with d have "xs = takeWhile (\<lambda>x. x \<noteq> b) xs @ b # zs"
    using takeWhile_dropWhile_id [of "\<lambda>x. x \<noteq> b" xs] by simp
  moreover have "b \<notin> set (takeWhile (\<lambda>x. x \<noteq> b) xs)"
    by (auto dest: set_takeWhileD)
  ultimately show ?thesis using a by blast
qed

subsection \<open>The topological sort\<close>

declare sort_from.simps [simp del]

lemma find_ready:
  "find (ready deps created) pending = Some x \<Longrightarrow> x \<in> set pending \<and> ready deps created x"
  by (auto simp: find_Some_iff)

text \<open>What the sort returns holds the resources created so far followed by the pending
  ones, each once, and every pending resource after all that it depends on.\<close>

lemma sort_from_sound:
  "sort_from deps created pending = Some order \<Longrightarrow> distinct (created @ pending) \<Longrightarrow>
     (\<exists>rest. order = created @ rest \<and> set rest = set pending) \<and> distinct order \<and>
     (\<forall>x\<in>set pending. \<forall>d. (x, d) \<in> set deps \<longrightarrow> precedes order d x)"
proof (induction deps created pending rule: sort_from.induct)
  case (1 deps created pending)
  show ?case
  proof (cases "pending = []")
    case True
    with "1.prems" show ?thesis by (simp add: sort_from.simps)
  next
    case False
    with "1.prems"(1) obtain x where found: "find (ready deps created) pending = Some x"
      and rec: "sort_from deps (created @ [x]) (remove1 x pending) = Some order"
      by (auto simp: sort_from.simps [of deps created pending] split: option.splits)
    from found have x: "x \<in> set pending" and rdy: "ready deps created x"
      by (simp_all add: find_ready)
    from "1.prems"(2) x have dist: "distinct ((created @ [x]) @ remove1 x pending)"
      by auto
    from "1.IH" [OF False found rec dist] obtain rest
      where order: "order = (created @ [x]) @ rest"
        and rest: "set rest = set (remove1 x pending)"
        and dorder: "distinct order"
        and later: "\<forall>y\<in>set (remove1 x pending). \<forall>d. (y, d) \<in> set deps \<longrightarrow> precedes order d y"
      by blast
    from "1.prems"(2) have dp: "distinct pending" and xc: "x \<notin> set created"
      using x by auto
    have shape: "order = created @ (x # rest)"
      using order by simp
    have "set (x # rest) = set pending"
      using rest x dp by auto
    moreover have "\<forall>y\<in>set pending. \<forall>d. (y, d) \<in> set deps \<longrightarrow> precedes order d y"
    proof (intro ballI allI impI)
      fix y d assume y: "y \<in> set pending" and dep: "(y, d) \<in> set deps"
      show "precedes order d y"
      proof (cases "y = x")
        case True
        from rdy dep True have "d \<in> set created"
          by (auto simp: ready_def list_all_iff)
        moreover have "takeWhile (\<lambda>z. z \<noteq> x) order = created"
          using xc by (auto simp: shape takeWhile_tail)
        ultimately show ?thesis
          using True by (simp add: precedes_def shape)
      next
        case False
        with y have "y \<in> set (remove1 x pending)" by simp
        with later dep show ?thesis by blast
      qed
    qed
    ultimately show ?thesis
      using shape dorder by blast
  qed
qed

lemma least_rank:
  fixes rank :: "'a \<Rightarrow> nat"
  shows "xs \<noteq> [] \<Longrightarrow> \<exists>x\<in>set xs. \<forall>y\<in>set xs. rank x \<le> rank y"
proof (induction xs)
  case Nil
  then show ?case by simp
next
  case (Cons a xs)
  show ?case
  proof (cases "xs = []")
    case True
    then show ?thesis by simp
  next
    case False
    with Cons.IH obtain x where x: "x \<in> set xs" and least: "\<forall>y\<in>set xs. rank x \<le> rank y"
      by blast
    show ?thesis
    proof (cases "rank a \<le> rank x")
      case True
      with least have "\<forall>y\<in>set (a # xs). rank a \<le> rank y"
        by (auto intro: order_trans)
      then show ?thesis by auto
    next
      case False
      with least have "\<forall>y\<in>set (a # xs). rank x \<le> rank y"
        by auto
      with x show ?thesis by auto
    qed
  qed
qed

text \<open>The sort returns an order when the dependencies have no cycle (each dependency of
  lower rank than its dependent) and lead to nothing outside the resources at hand.\<close>

lemma sort_from_total:
  fixes rank :: "'a \<Rightarrow> nat"
  assumes ranked: "\<forall>(a, d)\<in>set deps. rank d < rank a"
  shows "\<forall>(a, d)\<in>set deps. a \<in> set pending \<longrightarrow> d \<in> set created \<union> set pending \<Longrightarrow>
         \<exists>order. sort_from deps created pending = Some order"
  using ranked
proof (induction deps created pending rule: sort_from.induct)
  case (1 deps created pending)
  show ?case
  proof (cases "pending = []")
    case True
    then show ?thesis by (simp add: sort_from.simps)
  next
    case False
    then obtain x where x: "x \<in> set pending" and least: "\<forall>y\<in>set pending. rank x \<le> rank y"
      using least_rank [of pending rank] by blast
    have "ready deps created x"
      unfolding ready_def list_all_iff
    proof (intro ballI, clarify)
      fix d assume dep: "(x, d) \<in> set deps"
      with "1.prems"(1) x have "d \<in> set created \<union> set pending" by blast
      moreover from dep "1.prems"(2) have "rank d < rank x" by blast
      ultimately show "d \<in> set created"
        using least by auto
    qed
    with x have "find (ready deps created) pending \<noteq> None"
      by (auto simp: find_None_iff)
    then obtain y where found: "find (ready deps created) pending = Some y"
      by auto
    then have y: "y \<in> set pending"
      by (simp add: find_ready)
    have "\<forall>(a, d)\<in>set deps. a \<in> set (remove1 y pending) \<longrightarrow>
            d \<in> set (created @ [y]) \<union> set (remove1 y pending)"
    proof (clarify)
      fix a d assume dep: "(a, d) \<in> set deps" and a: "a \<in> set (remove1 y pending)"
        and d: "d \<notin> set (remove1 y pending)"
      from a have "a \<in> set pending"
        using set_remove1_subset [of y pending] by blast
      with "1.prems"(1) dep have "d \<in> set created \<union> set pending" by blast
      with d show "d \<in> set (created @ [y])"
        by (cases "d = y") auto
    qed
    from "1.IH" [OF False found this "1.prems"(2)]
    show ?thesis
      using False found by (simp add: sort_from.simps [of deps created pending])
  qed
qed

subsection \<open>The health response\<close>

lemma route_health: "route_matches ''/health'' ''/health''"
  by (simp add: route_matches_def to_lower_def)

lemma health_text:
  "stringify_object [(''status'', Some (Str ''healthy'')), (''version'', v)] =
     ''{'' @ quote ''status'' @ '':'' @ quote ''healthy'' @
       (case v of None \<Rightarrow> [] | Some j \<Rightarrow> '','' @ quote ''version'' @ '':'' @ stringify_value j) @
       ''}''"
  by (cases v) (simp_all add: stringify_object_def)

lemma quote_status: \<open>quote ''status'' = ''"status"''\<close>
  by (simp add: quote_def escape_char_def)

lemma quote_healthy: \<open>quote ''healthy'' = ''"healthy"''\<close>
  by (simp add: quote_def escape_char_def)

lemma quote_version: \<open>quote ''version'' = ''"version"''\<close>
  by (simp add: quote_def escape_char_def)

lemma quote_2_0_0: \<open>quote ''2.0.0'' = ''"2.0.0"''\<close>
  by (simp add: quote_def escape_char_def)

lemma health_text_prefix:
  \<open>\<exists>rest. stringify_object [(''status'', Some (Str ''healthy'')), (''version'', v)] =
     ''{"status":"healthy"'' @ rest\<close>
  by (simp add: health_text quote_status quote_healthy)

lemma health_text_2_0_0:
  \<open>stringify_object [(''status'', Some (Str ''healthy'')), (''version'', Some (Str ''2.0.0''))] =
     ''{"status":"healthy","version":"2.0.0"}''\<close>
  by (simp add: health_text quote_status quote_healthy quote_version quote_2_0_0)

lemma server_get_health:
  "server_start env = Inr srv \<Longrightarrow> url_path req = ''/health'' \<Longrightarrow>
     server_get env req =
       Inr (send (lib srv) req ''application/json; charset=utf-8''
              (stringify_object [(''status'', Some (Str ''healthy'')), (''version'', VERSION srv)]))"
  by (simp add: server_get_def handle_get_def route_health health_def res_json_def)

lemma sample_server_start:
  "server_start (sample_server_env (package_json v)) =
     Inr \<lparr>lib = sample_express, VERSION = Some (Str v)\<rparr>"
  by (simp add: server_start_def sample_server_env_def load_VERSION_def package_json_def
      get_property_def)

section \<open>The image reference of the environment\<close>

text \<open>
  C1, as the code has it. For every manifest whose version is a string \<open>v\<close>, the
  constructor succeeds, the stack holds exactly one environment, and the image option
  \<open>AWS_EB_DOCKER_IMAGE_URI\<close> of that environment is, once deployed, the registry host, a
  slash, the repository name \<open>dbbsoftt-repo\<close>, a colon and \<open>v\<close> verbatim: the repository's
  URI with the version as tag, not the bare repository name. The tag is whatever the
  manifest holds; no check excludes \<open>latest\<close>.
\<close>

theorem environment_image_reference:
  assumes "read_appVersion env = Inr (Some (Str v))"
  shows "\<exists>s. DbbSoftTestStack env = Inr s \<and> length (environments s) = 1 \<and>
           map_option (resolve \<rho>) (imageReference s) =
             Some (\<rho> ''MyWebAppRepo'' ''registryHost'' @ ''/dbbsoftt-repo:'' @ v)"
  using assms
  by (simp add: DbbSoftTestStack_def built_environments built_imageReference
      resolve_image_reference)

text \<open>The theorem at the manifest of version 1.2.3.\<close>

theorem environment_image_reference_witness:
  "read_appVersion (sample_env (package_json ''1.2.3'')) = Inr (Some (Str ''1.2.3'')) \<and>
   (\<exists>s. DbbSoftTestStack (sample_env (package_json ''1.2.3'')) = Inr s \<and>
      length (environments s) = 1 \<and>
      map_option (resolve sample_deployment) (imageReference s) =
        Some ''123456789.dkr.ecr.us-east-1.amazonaws.com/dbbsoftt-repo:1.2.3'')"
  using environment_image_reference
    [of "sample_env (package_json ''1.2.3'')" "''1.2.3''" sample_deployment]
  by (simp add: sample_read sample_deployment_def)

text \<open>The reference is not \<open><repository>:<VersionTag>\<close> at version 1.2.3, and a manifest of
  version \<open>latest\<close> gives the tag \<open>latest\<close>.\<close>

theorem image_reference_counterexample:
  "\<not> isl (DbbSoftTestStack (sample_env (package_json ''1.2.3''))) \<and>
   map_option (resolve sample_deployment)
     (imageReference (projr (DbbSoftTestStack (sample_env (package_json ''1.2.3''))))) \<noteq>
     Some ''dbbsoftt-repo:1.2.3'' \<and>
   map_option (resolve sample_deployment)
     (imageReference (projr (DbbSoftTestStack (sample_env (package_json ''latest''))))) =
     Some ''123456789.dkr.ecr.us-east-1.amazonaws.com/dbbsoftt-repo:latest''"
  by (simp add: sample_built built_imageReference resolve_image_reference sample_deployment_def)

section \<open>Failures of the version read\<close>

text \<open>
  C2, as the code has it. When the manifest cannot be read (missing or unreadable), is
  not JSON, or is the JSON value \<open>null\<close>, the constructor ends with the exception of the
  library call (the file-system error, a SyntaxError, a TypeError) and produces no
  stack, so that nothing can be submitted. A manifest whose version is a string is
  accepted whatever the string, the empty one included.
\<close>

theorem version_read_failures:
  "(\<forall>code. fs env [dirname env, ''..'', ''app'', ''package.json''] = Unreadable code \<longrightarrow>
      DbbSoftTestStack env = Inl (FsError code)) \<and>
   (fs env [dirname env, ''..'', ''app'', ''package.json''] = Malformed \<longrightarrow>
      DbbSoftTestStack env = Inl SyntaxError) \<and>
   (fs env [dirname env, ''..'', ''app'', ''package.json''] = Parsed JNull \<longrightarrow>
      DbbSoftTestStack env = Inl TypeError) \<and>
   (\<forall>kvs v. fs env [dirname env, ''..'', ''app'', ''package.json''] = Parsed (JObject kvs) \<and>
      map_of (rev kvs) ''version'' = Some (Str v) \<longrightarrow>
      DbbSoftTestStack env =
        Inr (versioned_constructs env v (network_constructs env empty_stack)))"
  by (simp add: DbbSoftTestStack_def read_appVersion_def read_json_def get_property_def)

text \<open>The four cases at sample manifests: a missing file, a file that is not JSON, the
  text \<open>null\<close>, and a manifest with the empty version.\<close>

theorem version_read_failures_witness:
  "DbbSoftTestStack (sample_env (Unreadable ''ENOENT'')) = Inl (FsError ''ENOENT'') \<and>
   DbbSoftTestStack (sample_env Malformed) = Inl SyntaxError \<and>
   DbbSoftTestStack (sample_env (Parsed JNull)) = Inl TypeError \<and>
   DbbSoftTestStack (sample_env (package_json '''')) =
     Inr (versioned_constructs (sample_env (package_json '''')) ''''
            (network_constructs (sample_env (package_json '''')) empty_stack))"
  using version_read_failures [of "sample_env (Unreadable ''ENOENT'')"]
    version_read_failures [of "sample_env Malformed"]
    version_read_failures [of "sample_env (Parsed JNull)"]
    version_read_failures [of "sample_env (package_json '''')"]
  by (simp add: sample_env_def manifest_at_def package_json_def)

text \<open>With an empty version the constructor does not fail: the image is given the empty
  tag.\<close>

theorem empty_version_counterexample:
  "\<not> isl (DbbSoftTestStack (sample_env (package_json ''''))) \<and>
   map_option (resolve sample_deployment)
     (imageReference (projr (DbbSoftTestStack (sample_env (package_json ''''))))) =
     Some ''123456789.dkr.ecr.us-east-1.amazonaws.com/dbbsoftt-repo:''"
  by (simp add: sample_built built_imageReference resolve_image_reference sample_deployment_def)

section \<open>Inbound rules and the public port\<close>



section \<open>The destination of the image push\<close>

text \<open>
  C4, as the code has it. With the version 1.2.3 the repository is named
  \<open>dbbsoftt-repo\<close>, and the destination of the image deployment is, once deployed, the
  registry host, a slash and \<open>dbbsoftt-repo:1.2.3\<close>: the repository's URI with the tag,
  of which \<open>dbbsoftt-repo:1.2.3\<close> is the end.
\<close>

theorem push_destination_1_2_3:
  assumes "read_appVersion env = Inr (Some (Str ''1.2.3''))"
  shows "\<exists>s. DbbSoftTestStack env = Inr s \<and>
           map_option repositoryName (find_construct s ''MyWebAppRepo'') = Some ''dbbsoftt-repo'' \<and>
           map_option (resolve \<rho>) (push_destination s) =
             Some (\<rho> ''MyWebAppRepo'' ''registryHost'' @ ''/dbbsoftt-repo:1.2.3'')"
  using assms
  by (simp add: DbbSoftTestStack_def built_push_destination resolve_image_reference
      find_construct_def built_constructs repo_def)

text \<open>The theorem at the sample manifest and registry.\<close>

theorem push_destination_1_2_3_witness:
  "read_appVersion (sample_env (package_json ''1.2.3'')) = Inr (Some (Str ''1.2.3'')) \<and>
   (\<exists>s. DbbSoftTestStack (sample_env (package_json ''1.2.3'')) = Inr s \<and>
      map_option repositoryName (find_construct s ''MyWebAppRepo'') = Some ''dbbsoftt-repo'' \<and>
      map_option (resolve sample_deployment) (push_destination s) =
        Some ''123456789.dkr.ecr.us-east-1.amazonaws.com/dbbsoftt-repo:1.2.3'')"
  using push_destination_1_2_3 [of "sample_env (package_json ''1.2.3'')" sample_deployment]
  by (simp add: sample_read sample_deployment_def)

text \<open>The destination is not the string \<open>dbbsoftt-repo:1.2.3\<close>.\<close>

theorem push_destination_counterexample:
  "\<not> isl (DbbSoftTestStack (sample_env (package_json ''1.2.3''))) \<and>
   map_option (resolve sample_deployment)
     (push_destination (projr (DbbSoftTestStack (sample_env (package_json ''1.2.3''))))) \<noteq>
     Some ''dbbsoftt-repo:1.2.3''"
  by (simp add: sample_built built_push_destination resolve_image_reference sample_deployment_def)

section \<open>The health endpoint\<close>

text \<open>
  C5, as the code has it. A server that has started answers a GET request for \<open>/health\<close>
  that is not conditional (no \<open>If-None-Match\<close>, no \<open>If-Modified-Since\<close>) with status 200,
  the JSON content type and a body that begins with the status \<open>healthy\<close>, whatever its
  version: the handler consults nothing. Started on the version 2.0.0, it answers every
  such request with exactly \<open>{"status":"healthy","version":"2.0.0"}\<close>, and any GET request
  for \<open>/health\<close> either with that response or, when Express finds the request fresh, with
  status 304 and neither content type nor body.
\<close>

theorem health_endpoint:
  assumes "server_start env = Inr srv" and "url_path req = ''/health''"
  shows \<open>(\<not> conditional req \<longrightarrow>
            (\<exists>rest. server_get env req =
               Inr (Response \<lparr>status = 200,
                      contentType = Some ''application/json; charset=utf-8'',
                      body = ''{"status":"healthy"'' @ rest\<rparr>))) \<and>
         (VERSION srv = Some (Str ''2.0.0'') \<and> \<not> conditional req \<longrightarrow>
            server_get env req =
              Inr (Response \<lparr>status = 200,
                     contentType = Some ''application/json; charset=utf-8'',
                     body = ''{"status":"healthy","version":"2.0.0"}''\<rparr>)) \<and>
         (VERSION srv = Some (Str ''2.0.0'') \<longrightarrow>
            server_get env req =
              Inr (Response
                (if fresh (lib srv) req ''{"status":"healthy","version":"2.0.0"}''
                 then \<lparr>status = 304, contentType = None, body = []\<rparr>
                 else \<lparr>status = 200,
                        contentType = Some ''application/json; charset=utf-8'',
                        body = ''{"status":"healthy","version":"2.0.0"}''\<rparr>)))\<close>
proof -
  obtain rest
    where rest: \<open>stringify_object [(''status'', Some (Str ''healthy'')), (''version'', VERSION srv)] =
      ''{"status":"healthy"'' @ rest\<close>
    using health_text_prefix [of "VERSION srv"] by blast
  have plain: "\<not> conditional req \<Longrightarrow> \<not> fresh (lib srv) req t" for t
    by (simp add: fresh_def)
  from rest plain show ?thesis
    by (auto simp: server_get_health [OF assms] send_def health_text_2_0_0)
qed

text \<open>The theorem at a server of version 2.0.0 and a request without headers.\<close>

theorem health_endpoint_witness:
  \<open>server_start (sample_server_env (package_json ''2.0.0'')) =
     Inr \<lparr>lib = sample_express, VERSION = Some (Str ''2.0.0'')\<rparr> \<and>
   url_path (plain_request ''/health'') = ''/health'' \<and>
   \<not> conditional (plain_request ''/health'') \<and>
   server_get (sample_server_env (package_json ''2.0.0'')) (plain_request ''/health'') =
     Inr (Response \<lparr>status = 200, contentType = Some ''application/json; charset=utf-8'',
                    body = ''{"status":"healthy","version":"2.0.0"}''\<rparr>)\<close>
proof -
  have path: "url_path (plain_request ''/health'') = ''/health''"
    by (simp add: plain_request_def)
  have plain: "\<not> conditional (plain_request ''/health'')"
    by (simp add: conditional_def plain_request_def header_holds_def)
  from health_endpoint [OF sample_server_start path] sample_server_start [of "''2.0.0''"] path plain
  show ?thesis by simp
qed

text \<open>A request for \<open>/health\<close> with the header \<open>If-None-Match: *\<close> is not answered with status
  200 and the body: the answer is 304 Not Modified, without content type and body.\<close>

theorem conditional_request_counterexample:
  \<open>server_get (sample_server_env (package_json ''2.0.0'')) (revalidation_request ''/health'') =
     Inr (Response \<lparr>status = 304, contentType = None, body = []\<rparr>) \<and>
   server_get (sample_server_env (package_json ''2.0.0'')) (revalidation_request ''/health'') \<noteq>
     Inr (Response \<lparr>status = 200, contentType = Some ''application/json; charset=utf-8'',
                    body = ''{"status":"healthy","version":"2.0.0"}''\<rparr>)\<close>
proof -
  have path: "url_path (revalidation_request ''/health'') = ''/health''"
    by (simp add: revalidation_request_def)
  show ?thesis
    unfolding server_get_health [OF sample_server_start path]
    by (simp add: send_def fresh_def conditional_def header_holds_def revalidation_request_def
        sample_express_def)
qed

section \<open>The environment comes after what it depends on\<close>

text \<open>
  C6. Take a stack that the constructor has built and its resources in any arrangement.
  The topological sort over the stack's dependencies returns an order of exactly these
  resources, and in it the role \<open>EBInstanceRole\<close>, the security group \<open>WebSg\<close> with its
  inbound rule and the repository \<open>MyWebAppRepo\<close> all come strictly before the
  environment \<open>MyEBEnv\<close>.
\<close>

theorem dependencies_precede_environment:
  assumes "DbbSoftTestStack env = Inr s"
    and "set input = set (resource_ids s)"
    and "distinct input"
  shows "\<exists>order. topological_sort (depends_on s) input = Some order \<and>
           set order = set input \<and> distinct order \<and>
           precedes order ''EBInstanceRole'' ''MyEBEnv'' \<and>
           precedes order ''WebSg'' ''MyEBEnv'' \<and>
           precedes order ''MyWebAppRepo'' ''MyEBEnv''"
proof -
  from assms(1) obtain v
    where s: "s = versioned_constructs env v (network_constructs env empty_stack)"
    by (auto simp: DbbSoftTestStack_Inr)
  define rank :: "string \<Rightarrow> nat" where
    "rank i = (if i = ''MyEBEnv'' then 2
               else if i = ''EBInstanceProfile'' \<or> i = ''MyAppVersion'' \<or> i = ''DeployDockerImage''
               then 1 else 0)" for i
  have ranked: "\<forall>(a, d)\<in>set (depends_on s). rank d < rank a"
    by (simp add: s built_depends_on rank_def)
  have closed: "\<forall>(a, d)\<in>set (depends_on s). a \<in> set input \<longrightarrow> d \<in> set [] \<union> set input"
    by (simp add: s built_depends_on assms(2) built_resource_ids)
  from sort_from_total [OF ranked closed] obtain order
    where order: "sort_from (depends_on s) [] input = Some order"
    by blast
  from sort_from_sound [OF order] assms(3)
  have members: "set order = set input" and dorder: "distinct order"
    and after: "\<forall>x\<in>set input. \<forall>d. (x, d) \<in> set (depends_on s) \<longrightarrow> precedes order d x"
    by auto
  have environment: "''MyEBEnv'' \<in> set input" and profile: "''EBInstanceProfile'' \<in> set input"
    by (simp_all add: assms(2) s built_resource_ids)
  from after environment have sg: "precedes order ''WebSg'' ''MyEBEnv''"
    and rp: "precedes order ''MyWebAppRepo'' ''MyEBEnv''"
    and pe: "precedes order ''EBInstanceProfile'' ''MyEBEnv''"
    by (simp_all add: s built_depends_on)
  from after profile have "precedes order ''EBInstanceRole'' ''EBInstanceProfile''"
    by (simp add: s built_depends_on)
  then have "precedes order ''EBInstanceRole'' ''MyEBEnv''"
    using pe by (rule precedes_trans)
  with order members dorder sg rp show ?thesis
    by (simp add: topological_sort_def)
qed

text \<open>The theorem at the resources of a sample stack, taken with the environment first.\<close>

theorem dependencies_precede_environment_witness:
  "DbbSoftTestStack (sample_env (package_json ''1.0.0'')) =
     Inr (projr (DbbSoftTestStack (sample_env (package_json ''1.0.0'')))) \<and>
   set [''MyEBEnv'', ''MyAppVersion'', ''MyEBApp'', ''EBInstanceProfile'', ''EBInstanceRole'',
        ''DeployDockerImage'', ''MyWebAppRepo'', ''WebSg''] =
     set (resource_ids (projr (DbbSoftTestStack (sample_env (package_json ''1.0.0''))))) \<and>
   distinct [''MyEBEnv'', ''MyAppVersion'', ''MyEBApp'', ''EBInstanceProfile'', ''EBInstanceRole'',
        ''DeployDockerImage'', ''MyWebAppRepo'', ''WebSg''] \<and>
   (\<exists>order.
      topological_sort (depends_on (projr (DbbSoftTestStack (sample_env (package_json ''1.0.0'')))))
        [''MyEBEnv'', ''MyAppVersion'', ''MyEBApp'', ''EBInstanceProfile'', ''EBInstanceRole'',
         ''DeployDockerImage'', ''MyWebAppRepo'', ''WebSg''] = Some order \<and>
      precedes order ''EBInstanceRole'' ''MyEBEnv'' \<and>
      precedes order ''WebSg'' ''MyEBEnv'' \<and>
      precedes order ''MyWebAppRepo'' ''MyEBEnv'')"
proof -
  have members:
    "set [''MyEBEnv'', ''MyAppVersion'', ''MyEBApp'', ''EBInstanceProfile'', ''EBInstanceRole'',
          ''DeployDockerImage'', ''MyWebAppRepo'', ''WebSg''] =
       set (resource_ids (projr (DbbSoftTestStack (sample_env (package_json ''1.0.0'')))))"
    by (auto simp: sample_built built_resource_ids)
  have once:
    "distinct [''MyEBEnv'', ''MyAppVersion'', ''MyEBApp'', ''EBInstanceProfile'', ''EBInstanceRole'',
          ''DeployDockerImage'', ''MyWebAppRepo'', ''WebSg'']"
    by simp
  from dependencies_precede_environment [OF sample_built_projr members once]
    sample_built_projr [of "''1.0.0''"] members once
  show ?thesis by blast
qed

section \<open>Records and images of the versions\<close>




section \<open>The image that is pushed is the image that is pulled\<close>

text \<open>
  C10. For every version value with which the constructor succeeds, the destination of
  the image deployment and the image option of the environment are one and the same
  string: the repository's URI, a colon and the version as the template literal renders
  it.
\<close>

theorem pushed_image_is_pulled:
  assumes "DbbSoftTestStack env = Inr s"
  shows "\<exists>a v. read_appVersion env = Inr a \<and> ToString a = Inr v \<and>
           push_destination s = Some (repositoryUri ''MyWebAppRepo'' repo @ [Lit '':'', Lit v]) \<and>
           imageReference s = push_destination s"
  using assms
  by (auto simp: DbbSoftTestStack_Inr built_imageReference built_push_destination
      image_reference_def)

text \<open>The theorem at a manifest of version 1.0.0.\<close>

theorem pushed_image_is_pulled_witness:
  "DbbSoftTestStack (sample_env (package_json ''1.0.0'')) =
     Inr (projr (DbbSoftTestStack (sample_env (package_json ''1.0.0'')))) \<and>
   push_destination (projr (DbbSoftTestStack (sample_env (package_json ''1.0.0'')))) =
     Some [Attr ''MyWebAppRepo'' ''registryHost'', Lit ''/'', Lit ''dbbsoftt-repo'', Lit '':'',
           Lit ''1.0.0''] \<and>
   imageReference (projr (DbbSoftTestStack (sample_env (package_json ''1.0.0'')))) =
     push_destination (projr (DbbSoftTestStack (sample_env (package_json ''1.0.0''))))"
  using pushed_image_is_pulled [OF sample_built_projr, of "''1.0.0''"]
    sample_built_projr [of "''1.0.0''"]
  by (auto simp: sample_read repositoryUri_def repo_def)

end
